theory Spec2Isabelle
  imports Main
begin

section \<open>Data model of the signaling server (src/api/index.ts)\<close>

text \<open>
  The server keeps one process-wide object \<open>rooms = {}\<close>, indexed by room id and then by
  socket id, whose leaves are peer objects \<open>{username, isVideoEnabled}\<close>. Both levels
  are plain JavaScript objects, so a lookup \<open>rooms[k]\<close> or \<open>rooms[k][id]\<close> that finds no
  own property continues along the prototype chain, to \<open>Object.prototype\<close>, and a room id
  such as \<open>"constructor"\<close> or \<open>"__proto__"\<close> resolves to a built-in object. The state
  therefore records, besides the own properties of \<open>rooms\<close>, the properties the handlers
  have stored on the built-in objects that \<open>rooms[k]\<close> can resolve to.
\<close>

record peer =
  username :: string
  isVideoEnabled :: bool

type_synonym room_peers = "string \<rightharpoonup> peer"

text \<open>
  A peer object that \<open>register\<close> has stored on \<open>Object.prototype\<close> (room id
  \<open>"__proto__"\<close>) under a socket id: \<open>rooms[id]\<close> inherits it, and a \<open>register\<close> naming
  that id as its room stores its entry in this peer object.
\<close>

record planted =
  own :: peer
  entries :: room_peers

text \<open>The only run-time error the handlers could raise.\<close>

datatype js_error = TypeError

text \<open>
  What \<open>rooms[k]\<close> evaluates to: \<open>undefined\<close>; a room object, an own property of
  \<open>rooms\<close>, with its own properties; one of the functions that \<open>Object.prototype\<close> holds,
  by its property name; \<open>Object.prototype\<close> itself (for \<open>"__proto__"\<close>), with the
  properties stored on it; or a peer object stored on \<open>Object.prototype\<close>.
\<close>

datatype js_value =
    Undefined
  | Room_object room_peers
  | Builtin_function string
  | Object_prototype "string \<rightharpoonup> planted"
  | Planted_object planted

text \<open>
  The outbound messages, one constructor per event name emitted by the handlers:
  \<open>introduction\<close> (the value of \<open>rooms[room]\<close>), \<open>newUserConnected {id, username}\<close>,
  \<open>signal (to, from, data)\<close>, \<open>user-toggled-video {id, isEnabled}\<close> and
  \<open>userDisconnected id\<close>. The signal payload is opaque, so its type is a parameter.
\<close>

datatype 'd message =
    Introduction js_value
  | NewUserConnected string string
  | SignalMsg string string 'd
  | UserToggledVideo string bool
  | UserDisconnected string

text \<open>
  The three ways a handler addresses a message, as the source writes them:
  \<open>socket.emit(...)\<close>, \<open>socket.to(room).emit(...)\<close> and \<open>io.to(id).emit(...)\<close>.
\<close>

datatype 'd emit =
    Socket_emit "'d message"
  | Socket_to string "'d message"
  | Io_to string "'d message"

text \<open>
  The state of the process: the own properties of \<open>rooms\<close>; the properties the handlers
  have stored on \<open>Object.prototype\<close> and on each function \<open>Object.prototype\<close> holds; the
  closure variable \<open>currentRoom\<close> of every connection (\<open>None\<close> is \<open>null\<close>); and the part of
  the transport the handlers rely on: which connections are open, which have been closed,
  and the members of every broadcast group.
\<close>

record server =
  rooms :: "string \<rightharpoonup> room_peers"
  proto_entries :: "string \<rightharpoonup> planted"
  builtin_entries :: "string \<Rightarrow> room_peers"
  currentRoom :: "string \<Rightarrow> string option"
  connected :: "string set"
  gone :: "string set"
  members :: "string \<Rightarrow> string set"

definition init_server :: server where
  "init_server = \<lparr>rooms = Map.empty, proto_entries = Map.empty,
     builtin_entries = (\<lambda>_. Map.empty), currentRoom = (\<lambda>_. None), connected = {},
     gone = {}, members = (\<lambda>_. {})\<rparr>"

section \<open>The built-in objects\<close>

text \<open>
  The properties of the built-in objects on the prototype chains, as ECMAScript defines
  them. \<open>Object.prototype\<close> holds the accessor \<open>__proto__\<close> and eleven functions; every
  function has the own properties \<open>length\<close> and \<open>name\<close>; \<open>Object\<close> (the value of
  \<open>Object.prototype.constructor\<close>) has its static methods and \<open>prototype\<close>; and
  \<open>Function.prototype\<close>, the prototype of every function, holds five functions and the
  accessors \<open>arguments\<close> and \<open>caller\<close>, which throw a TypeError when read. None of these
  properties is enumerable.
\<close>

definition object_prototype_functions :: "string list" where
  "object_prototype_functions =
     [''constructor'', ''__defineGetter__'', ''__defineSetter__'', ''hasOwnProperty'',
      ''__lookupGetter__'', ''__lookupSetter__'', ''isPrototypeOf'', ''propertyIsEnumerable'',
      ''toString'', ''valueOf'', ''toLocaleString'']"

text \<open>The functions of \<open>Object.prototype\<close> whose \<open>length\<close> is 0, a falsy value.\<close>

definition zero_length_functions :: "string list" where
  "zero_length_functions = [''toString'', ''valueOf'', ''toLocaleString'']"

definition object_statics :: "string list" where
  "object_statics =
     [''assign'', ''create'', ''defineProperties'', ''defineProperty'', ''entries'', ''freeze'',
      ''fromEntries'', ''getOwnPropertyDescriptor'', ''getOwnPropertyDescriptors'',
      ''getOwnPropertyNames'', ''getOwnPropertySymbols'', ''getPrototypeOf'', ''groupBy'',
      ''hasOwn'', ''is'', ''isExtensible'', ''isFrozen'', ''isSealed'', ''keys'',
      ''preventExtensions'', ''prototype'', ''seal'', ''setPrototypeOf'', ''values'']"

definition function_prototype_functions :: "string list" where
  "function_prototype_functions = [''apply'', ''bind'', ''call'', ''constructor'', ''toString'']"

definition function_prototype_poison :: "string list" where
  "function_prototype_poison = [''arguments'', ''caller'']"

section \<open>JavaScript expressions used by the handlers\<close>

text \<open>Truthiness of a value of type \<open>string | null | undefined\<close>: non-null and non-empty.\<close>

definition truthy :: "string option \<Rightarrow> bool" where
  "truthy v = (case v of None \<Rightarrow> False | Some str \<Rightarrow> str \<noteq> [])"

text \<open>A value of type \<open>string | null\<close> used as a property key: \<open>null\<close> becomes \<open>"null"\<close>.\<close>

definition key_of :: "string option \<Rightarrow> string" where
  "key_of v = (case v of None \<Rightarrow> ''null'' | Some str \<Rightarrow> str)"

text \<open>\<open>roomId || "default"\<close>\<close>

definition resolve_room :: "string option \<Rightarrow> string" where
  "resolve_room roomId = (case roomId of None \<Rightarrow> ''default''
      | Some r \<Rightarrow> if r \<noteq> [] then r else ''default'')"

text \<open>
  \<open>rooms[k]\<close>: an own property of \<open>rooms\<close>, or else what \<open>rooms\<close> inherits from
  \<open>Object.prototype\<close>: the accessor \<open>__proto__\<close> returns the prototype of \<open>rooms\<close>, which is
  \<open>Object.prototype\<close>; then its functions; then the peer objects stored on it.
\<close>

definition get_room :: "server \<Rightarrow> string \<Rightarrow> js_value" where
  "get_room s k = (case rooms s k of
       Some m \<Rightarrow> Room_object m
     | None \<Rightarrow>
         if k = ''__proto__'' then Object_prototype (proto_entries s)
         else if k \<in> set object_prototype_functions then Builtin_function k
         else (case proto_entries s k of Some p \<Rightarrow> Planted_object p | None \<Rightarrow> Undefined))"

text \<open>Every value but \<open>undefined\<close> that \<open>rooms[k]\<close> can have is an object, hence truthy.\<close>

definition truthy_value :: "js_value \<Rightarrow> bool" where
  "truthy_value v = (v \<noteq> Undefined)"

text \<open>
  Where a lookup \<open>rooms[k][key]\<close> finds its property: in a peer object the handlers have
  stored (in the room object \<open>rooms[k]\<close>, on a function of \<open>Object.prototype\<close>, on
  \<open>Object.prototype\<close>, or in the peer object stored there under \<open>k\<close>), in a built-in
  object, in a primitive value of the given truthiness, in an accessor that throws, or
  nowhere (\<open>undefined\<close>).
\<close>

datatype place = In_room string | On_function string | On_prototype | In_planted string

datatype found = Stored place | Builtin_object | Primitive bool | Poison | Missing

text \<open>
  What an object whose prototype is \<open>Object.prototype\<close> inherits under \<open>key\<close>.
\<close>

definition from_object_prototype :: "server \<Rightarrow> string \<Rightarrow> found" where
  "from_object_prototype s key =
     (if key = ''__proto__'' then Builtin_object
      else if key \<in> set object_prototype_functions then Builtin_object
      else if proto_entries s key \<noteq> None then Stored On_prototype
      else Missing)"

text \<open>
  \<open>rooms[k]?.[key]\<close>, given the value \<open>v\<close> of \<open>rooms[k]\<close>. Read on \<open>Object.prototype\<close>
  itself, \<open>__proto__\<close> is \<open>null\<close>. A function has its own \<open>length\<close> and \<open>name\<close> and
  inherits from \<open>Function.prototype\<close> before \<open>Object.prototype\<close>. A peer object has the
  own fields \<open>username\<close> and \<open>isVideoEnabled\<close>.
\<close>

fun get_prop :: "server \<Rightarrow> string \<Rightarrow> js_value \<Rightarrow> string \<Rightarrow> found" where
  "get_prop s k Undefined key = Missing"
| "get_prop s k (Room_object m) key =
     (if m key \<noteq> None then Stored (In_room k) else from_object_prototype s key)"
| "get_prop s k (Builtin_function n) key =
     (if builtin_entries s n key \<noteq> None then Stored (On_function n)
      else if key = ''length'' then Primitive (n \<notin> set zero_length_functions)
      else if key = ''name'' then Primitive True
      else if n = ''constructor'' \<and> key \<in> set object_statics then Builtin_object
      else if key \<in> set function_prototype_poison then Poison
      else if key \<in> set function_prototype_functions then Builtin_object
      else from_object_prototype s key)"
| "get_prop s k (Object_prototype pe) key =
     (if key = ''__proto__'' then Primitive False
      else if key \<in> set object_prototype_functions then Builtin_object
      else if pe key \<noteq> None then Stored On_prototype
      else Missing)"
| "get_prop s k (Planted_object p) key =
     (if key = ''username'' then Primitive (username (own p) \<noteq> [])
      else if key = ''isVideoEnabled'' then Primitive (isVideoEnabled (own p))
      else if entries p key \<noteq> None then Stored (In_planted k)
      else from_object_prototype s key)"

text \<open>
  \<open>rooms[room][id] = {username, isVideoEnabled: false}\<close>, given the value \<open>v\<close> of
  \<open>rooms[room]\<close>: the assignment creates or overwrites an own property of that object. A
  fresh peer object stored on \<open>Object.prototype\<close> replaces the one stored there before,
  with all that was stored in it.
\<close>

fun set_entry :: "string \<Rightarrow> string \<Rightarrow> peer \<Rightarrow> js_value \<Rightarrow> server \<Rightarrow> js_error + server" where
  "set_entry room ident p Undefined s = Inl TypeError"
| "set_entry room ident p (Room_object m) s =
     Inr (s\<lparr>rooms := (rooms s)(room \<mapsto> m(ident \<mapsto> p))\<rparr>)"
| "set_entry room ident p (Builtin_function n) s =
     Inr (s\<lparr>builtin_entries := (builtin_entries s)(n := (builtin_entries s n)(ident \<mapsto> p))\<rparr>)"
| "set_entry room ident p (Object_prototype pe) s =
     Inr (s\<lparr>proto_entries := pe(ident \<mapsto> \<lparr>own = p, entries = Map.empty\<rparr>)\<rparr>)"
| "set_entry room ident p (Planted_object q) s =
     Inr (s\<lparr>proto_entries := (proto_entries s)(room \<mapsto> q\<lparr>entries := (entries q)(ident \<mapsto> p)\<rparr>)\<rparr>)"

text \<open>\<open>delete rooms[room][id]\<close>: removes an own property of the object and nothing else.\<close>

fun delete_entry :: "string \<Rightarrow> string \<Rightarrow> js_value \<Rightarrow> server \<Rightarrow> js_error + server" where
  "delete_entry room ident Undefined s = Inl TypeError"
| "delete_entry room ident (Room_object m) s =
     Inr (s\<lparr>rooms := (rooms s)(room \<mapsto> m(ident := None))\<rparr>)"
| "delete_entry room ident (Builtin_function n) s =
     Inr (s\<lparr>builtin_entries := (builtin_entries s)(n := (builtin_entries s n)(ident := None))\<rparr>)"
| "delete_entry room ident (Object_prototype pe) s =
     Inr (s\<lparr>proto_entries := pe(ident := None)\<rparr>)"
| "delete_entry room ident (Planted_object q) s =
     Inr (s\<lparr>proto_entries := (proto_entries s)(room \<mapsto> q\<lparr>entries := (entries q)(ident := None)\<rparr>)\<rparr>)"

text \<open>
  \<open>Object.keys(rooms[room]).length === 0\<close>: the own enumerable properties are those the
  handlers stored and, for a peer object, its two fields.
\<close>

fun keys_empty :: "server \<Rightarrow> js_value \<Rightarrow> js_error + bool" where
  "keys_empty s Undefined = Inl TypeError"
| "keys_empty s (Room_object m) = Inr (dom m = {})"
| "keys_empty s (Builtin_function n) = Inr (dom (builtin_entries s n) = {})"
| "keys_empty s (Object_prototype pe) = Inr (dom pe = {})"
| "keys_empty s (Planted_object q) = Inr False"

text \<open>
  \<open>rooms[k][id].isVideoEnabled = isEnabled\<close> on the peer object found at the given place.
\<close>

definition set_flag :: "bool \<Rightarrow> peer option \<Rightarrow> peer option" where
  "set_flag b = map_option (\<lambda>p. p\<lparr>isVideoEnabled := b\<rparr>)"

fun set_video :: "place \<Rightarrow> string \<Rightarrow> bool \<Rightarrow> server \<Rightarrow> server" where
  "set_video (In_room k) ident b s =
     s\<lparr>rooms := (rooms s)(k := map_option (\<lambda>m. m(ident := set_flag b (m ident))) (rooms s k))\<rparr>"
| "set_video (On_function n) ident b s =
     s\<lparr>builtin_entries := (builtin_entries s)
         (n := (builtin_entries s n)(ident := set_flag b (builtin_entries s n ident)))\<rparr>"
| "set_video On_prototype ident b s =
     s\<lparr>proto_entries := (proto_entries s)
         (ident := map_option (\<lambda>q. q\<lparr>own := (own q)\<lparr>isVideoEnabled := b\<rparr>\<rparr>) (proto_entries s ident))\<rparr>"
| "set_video (In_planted k) ident b s =
     s\<lparr>proto_entries := (proto_entries s)
         (k := map_option (\<lambda>q. q\<lparr>entries := (entries q)(ident := set_flag b (entries q ident))\<rparr>)
                 (proto_entries s k))\<rparr>"

section \<open>The transport\<close>

text \<open>
  Modelled from the spec: the transport library (socket.io) is not part of the
  repository's source. Section 6 of the specification gives the interface the handlers
  need: every connection has a unique identity; a connection can be joined to a named
  broadcast group; a message can be sent to one specific connection, or to all other
  members of a named group excluding the caller. A closed connection receives nothing,
  and an identity is never given to a second connection. The handlers reach the three
  primitives as \<open>socket.join(room)\<close>, \<open>io.to(id).emit(...)\<close> and
  \<open>socket.to(room).emit(...)\<close>; \<open>io.to(id)\<close> is read, as the specification does, as the
  one connection of that identity. An identity is a token the transport generates; it
  is taken never to be the name of a property of a built-in object or of a peer object.
\<close>

definition socket_join :: "string \<Rightarrow> string \<Rightarrow> server \<Rightarrow> server" where
  "socket_join sid room s = s\<lparr>members := (members s)(room := insert sid (members s room))\<rparr>"

definition transport_close :: "string \<Rightarrow> server \<Rightarrow> server" where
  "transport_close sid s = s\<lparr>connected := connected s - {sid}, gone := insert sid (gone s)\<rparr>"

text \<open>The connections that receive a message emitted by the handler of socket \<open>sid\<close>.\<close>

definition recipients :: "server \<Rightarrow> string \<Rightarrow> 'd emit \<Rightarrow> string set" where
  "recipients s sid e = (case e of
       Socket_emit m \<Rightarrow> {sid} \<inter> connected s
     | Socket_to room m \<Rightarrow> (members s room \<inter> connected s) - {sid}
     | Io_to target m \<Rightarrow> {target} \<inter> connected s)"

section \<open>The handlers\<close>

text \<open>\<open>io.on("connection", ...)\<close>: the closure starts with \<open>currentRoom = null\<close>.\<close>

definition on_connection :: "string \<Rightarrow> server \<Rightarrow> server" where
  "on_connection sid s =
     s\<lparr>currentRoom := (currentRoom s)(sid := None), connected := insert sid (connected s)\<rparr>"

text \<open>
  \<open>socket.on("register", (username, roomId) => ...)\<close>, lines 88 to 119. The room is
  initialised only when \<open>rooms[room]\<close> is falsy, so not when the room id resolves to an
  inherited object; the entry is then stored in whatever \<open>rooms[room]\<close> is, and that
  value is what \<open>introduction\<close> carries.
\<close>

definition on_register ::
  "string \<Rightarrow> string \<Rightarrow> string option \<Rightarrow> server \<Rightarrow> js_error + (server \<times> 'd emit list)" where
  "on_register sid uname roomId s =
     (let room = resolve_room roomId;
          s1 = s\<lparr>currentRoom := (currentRoom s)(sid := Some room)\<rparr>;
          s2 = socket_join sid room s1;
          s3 = (if truthy_value (get_room s2 room) then s2
                else s2\<lparr>rooms := (rooms s2)(room \<mapsto> Map.empty)\<rparr>)
      in case set_entry room sid \<lparr>username = uname, isVideoEnabled = False\<rparr>
                (get_room s3 room) s3 of
           Inl err \<Rightarrow> Inl err
         | Inr s4 \<Rightarrow> Inr (s4, [Socket_emit (Introduction (get_room s4 room)),
                                Socket_to room (NewUserConnected sid uname)]))"

text \<open>
  \<open>socket.on("signal", (to, from, data) => ...)\<close>, lines 132 to 138: the message is
  relayed when \<open>currentRoom && rooms[currentRoom]?.[to]\<close> is truthy.
\<close>

definition on_signal ::
  "string \<Rightarrow> string \<Rightarrow> string \<Rightarrow> 'd \<Rightarrow> server \<Rightarrow> js_error + (server \<times> 'd emit list)" where
  "on_signal sid to from data s =
     (let cur = currentRoom s sid; k = key_of cur in
      if truthy cur then
        (case get_prop s k (get_room s k) to of
           Stored pl \<Rightarrow> Inr (s, [Io_to to (SignalMsg to from data)])
         | Builtin_object \<Rightarrow> Inr (s, [Io_to to (SignalMsg to from data)])
         | Primitive b \<Rightarrow>
             if b then Inr (s, [Io_to to (SignalMsg to from data)]) else Inr (s, [])
         | Poison \<Rightarrow> Inl TypeError
         | Missing \<Rightarrow> Inr (s, []))
      else Inr (s, []))"

text \<open>
  \<open>socket.on("user-toggle-video", (isEnabled) => ...)\<close>, lines 148 to 157. The key looked
  up is the socket id, which finds only a peer object the handlers stored. The other
  branches are what JavaScript does for other keys: in strict mode the assignment to a
  property of a primitive raises a TypeError, and on a built-in object it sets a property
  that no handler reads.
\<close>

definition on_user_toggle_video ::
  "string \<Rightarrow> bool \<Rightarrow> server \<Rightarrow> js_error + (server \<times> 'd emit list)" where
  "on_user_toggle_video sid isEnabled s =
     (let cur = currentRoom s sid; k = key_of cur in
      if truthy cur then
        (case get_prop s k (get_room s k) sid of
           Stored pl \<Rightarrow>
             Inr (set_video pl sid isEnabled s, [Socket_to k (UserToggledVideo sid isEnabled)])
         | Builtin_object \<Rightarrow> Inr (s, [Socket_to k (UserToggledVideo sid isEnabled)])
         | Primitive b \<Rightarrow> if b then Inl TypeError else Inr (s, [])
         | Poison \<Rightarrow> Inl TypeError
         | Missing \<Rightarrow> Inr (s, []))
      else Inr (s, []))"

text \<open>
  \<open>socket.on("disconnect", () => ...)\<close>, lines 166 to 184. \<open>delete rooms[currentRoom]\<close>
  removes an own property of \<open>rooms\<close> and does nothing when the room id resolves to an
  inherited object.
\<close>

definition on_disconnect :: "string \<Rightarrow> server \<Rightarrow> js_error + (server \<times> 'd emit list)" where
  "on_disconnect sid s =
     (let cur = currentRoom s sid; k = key_of cur in
      if truthy cur \<and> truthy_value (get_room s k) then
        (case delete_entry k sid (get_room s k) s of
           Inl err \<Rightarrow> Inl err
         | Inr s1 \<Rightarrow>
             (case keys_empty s1 (get_room s1 k) of
                Inl err \<Rightarrow> Inl err
              | Inr no_keys \<Rightarrow>
                  let s2 = (if no_keys then s1\<lparr>rooms := (rooms s1)(k := None)\<rparr> else s1)
                  in Inr (s2, [Socket_to k (UserDisconnected sid)])))
      else Inr (s, []))"

section \<open>Runs of the server\<close>

text \<open>
  The events the transport delivers. The first argument is the connection the event
  arrives on. The transport delivers events of open connections only, opens an identity
  once, and closes a connection before its \<open>disconnect\<close> handler runs; an event that
  breaks this is not delivered.
\<close>

datatype 'd event =
    Connect string
  | Register string string "string option"
  | Signal string string string 'd
  | Toggle_video string bool
  | Disconnect string

fun step :: "'d event \<Rightarrow> server \<Rightarrow> js_error + (server \<times> 'd emit list)" where
  "step (Connect c) s =
     (if c \<in> connected s \<or> c \<in> gone s then Inr (s, []) else Inr (on_connection c s, []))"
| "step (Register c uname roomId) s =
     (if c \<in> connected s then on_register c uname roomId s else Inr (s, []))"
| "step (Signal c to from data) s =
     (if c \<in> connected s then on_signal c to from data s else Inr (s, []))"
| "step (Toggle_video c isEnabled) s =
     (if c \<in> connected s then on_user_toggle_video c isEnabled s else Inr (s, []))"
| "step (Disconnect c) s =
     (if c \<in> connected s then on_disconnect c (transport_close c s) else Inr (s, []))"

text \<open>An exception that no handler catches ends the process, so a run stops at it.\<close>

fun run :: "'d event list \<Rightarrow> server \<Rightarrow> js_error + server" where
  "run [] s = Inr s"
| "run (e # es) s = (case step e s of Inl err \<Rightarrow> Inl err | Inr (s', out) \<Rightarrow> run es s')"

section \<open>Accounting of registrations and departures\<close>







section \<open>The tally and the registry\<close>



section \<open>Evaluation of the handlers\<close>

lemmas eval_defs = init_server_def on_connection_def on_register_def on_signal_def
  on_user_toggle_video_def on_disconnect_def socket_join_def transport_close_def
  get_room_def truthy_value_def truthy_def key_of_def resolve_room_def recipients_def
  from_object_prototype_def object_prototype_functions_def zero_length_functions_def
  object_statics_def function_prototype_functions_def function_prototype_poison_def
  set_flag_def Let_def

section \<open>The tally simulates the registry\<close>

lemma proto_not_function: "''__proto__'' \<notin> set object_prototype_functions"
  by (simp add: object_prototype_functions_def)


text \<open>The three ways a room id resolves while every register names the same room.\<close>

lemma get_room_proto:
  "rooms s ''__proto__'' = None \<Longrightarrow> get_room s ''__proto__'' = Object_prototype (proto_entries s)"
  by (simp add: get_room_def)

lemma get_room_function:
  "r \<in> set object_prototype_functions \<Longrightarrow> rooms s r = None \<Longrightarrow> get_room s r = Builtin_function r"
  using proto_not_function by (auto simp: get_room_def)

lemma get_room_plain:
  "r \<noteq> ''__proto__'' \<Longrightarrow> r \<notin> set object_prototype_functions \<Longrightarrow> proto_entries s r = None \<Longrightarrow>
     get_room s r = (case rooms s r of None \<Rightarrow> Undefined | Some m \<Rightarrow> Room_object m)"
  by (simp add: get_room_def split: option.splits)













section \<open>The claims\<close>

text \<open>
  C1. The claim that a \<open>signal\<close> is delivered to \<open>to\<close> if and only if the caller has a
  current room and \<open>to\<close> is a member of that room in the registry, evaluated on the code.
  First: A registers in room1 and again in room2, then disconnects, which leaves its entry
  in room1; B registers in room1 and signals A. The guard finds the stale entry, the
  handler relays, and nobody receives. Second: A registers with room id \<open>"__proto__"\<close>,
  which stores its peer object on \<open>Object.prototype\<close>; B registers in room1, whose member
  map holds B alone, and signals A. \<open>rooms["room1"]["A"]\<close> inherits A's peer object, so the
  handler relays and A receives, though A is not a member of B's room.
\<close>

theorem C1_signal_stale_or_inherited:
  "(\<exists>s. run [Connect ''A'', Connect ''B'', Register ''A'' ''alice'' (Some ''room1''),
              Register ''A'' ''alice'' (Some ''room2''), Disconnect ''A'',
              Register ''B'' ''bob'' (Some ''room1'') :: string event] init_server = Inr s
       \<and> ''A'' \<notin> connected s
       \<and> currentRoom s ''B'' = Some ''room1''
       \<and> rooms s ''room1'' = Some [''A'' \<mapsto> \<lparr>username = ''alice'', isVideoEnabled = False\<rparr>,
                                     ''B'' \<mapsto> \<lparr>username = ''bob'', isVideoEnabled = False\<rparr>]
       \<and> step (Signal ''B'' ''A'' ''B'' ''sdp'') s =
            Inr (s, [Io_to ''A'' (SignalMsg ''A'' ''B'' ''sdp'')])
       \<and> recipients s ''B'' (Io_to ''A'' (SignalMsg ''A'' ''B'' ''sdp'')) = {})
   \<and> (\<exists>s. run [Connect ''A'', Connect ''B'', Register ''A'' ''alice'' (Some ''__proto__''),
              Register ''B'' ''bob'' (Some ''room1'') :: string event] init_server = Inr s
       \<and> currentRoom s ''B'' = Some ''room1''
       \<and> rooms s ''room1'' = Some [''B'' \<mapsto> \<lparr>username = ''bob'', isVideoEnabled = False\<rparr>]
       \<and> step (Signal ''B'' ''A'' ''B'' ''sdp'') s =
            Inr (s, [Io_to ''A'' (SignalMsg ''A'' ''B'' ''sdp'')])
       \<and> recipients s ''B'' (Io_to ''A'' (SignalMsg ''A'' ''B'' ''sdp'')) = {''A''})"
  by (simp add: eval_defs)

text \<open>
  C2. The claim that the \<open>introduction\<close> payload is the member map of the resolved room,
  evaluated on the code: B registers with room id \<open>"constructor"\<close>. \<open>rooms["constructor"]\<close>
  is the inherited function \<open>Object\<close>, so no room is initialised, the entry is stored as
  a property of that function, and the handler emits the function itself.
\<close>

theorem C2_introduction_is_builtin_function:
  "\<exists>s'. step (Register ''B'' ''bob'' (Some ''constructor'')) (on_connection ''B'' init_server) =
          Inr (s', [Socket_emit (Introduction (Builtin_function ''constructor'')),
                    Socket_to ''constructor'' (NewUserConnected ''B'' ''bob'') :: string emit])
       \<and> rooms s' = Map.empty
       \<and> builtin_entries s' ''constructor'' =
           [''B'' \<mapsto> \<lparr>username = ''bob'', isVideoEnabled = False\<rparr>]"
  by (simp add: eval_defs)

text \<open>
  C3. The claim that \<open>register\<close> creates the room in the registry if absent and inserts
  the caller's entry in it, evaluated on the code: A registers with room id \<open>"__proto__"\<close>,
  or with room id \<open>"toString"\<close>. The room id resolves to an inherited object, the room is
  recorded as the caller's current room, and \<open>rooms\<close> gets no property: the entry is stored
  on \<open>Object.prototype\<close>, or on the function \<open>Object.prototype.toString\<close>.
\<close>

theorem C3_register_creates_no_room:
  "(\<exists>s'. step (Register ''A'' ''alice'' (Some ''__proto__'')) (on_connection ''A'' init_server) =
          Inr (s', [Socket_emit (Introduction (Object_prototype
                      [''A'' \<mapsto> \<lparr>own = \<lparr>username = ''alice'', isVideoEnabled = False\<rparr>,
                                 entries = Map.empty\<rparr>])),
                    Socket_to ''__proto__'' (NewUserConnected ''A'' ''alice'') :: string emit])
       \<and> currentRoom s' ''A'' = Some ''__proto__''
       \<and> rooms s' = Map.empty)
   \<and> (\<exists>s'. step (Register ''A'' ''alice'' (Some ''toString'')) (on_connection ''A'' init_server) =
          Inr (s', [Socket_emit (Introduction (Builtin_function ''toString'')),
                    Socket_to ''toString'' (NewUserConnected ''A'' ''alice'') :: string emit])
       \<and> currentRoom s' ''A'' = Some ''toString''
       \<and> rooms s' = Map.empty)"
  by (simp add: eval_defs)

text \<open>
  C4. The claim that a room is absent from the registry after its last member has
  disconnected, evaluated on the code: A registers in room1 and then in room2. A is the
  only member of room1, and after A disconnects room1 is still in the registry, with A's
  entry: the handler cleans up \<open>currentRoom\<close>, which is room2, only.
\<close>

theorem C4_room_survives_last_member:
  "\<exists>s s' out. run [Connect ''A'', Register ''A'' ''alice'' (Some ''room1''),
              Register ''A'' ''alice'' (Some ''room2'') :: string event] init_server = Inr s
       \<and> ''A'' \<in> connected s
       \<and> rooms s ''room1'' = Some [''A'' \<mapsto> \<lparr>username = ''alice'', isVideoEnabled = False\<rparr>]
       \<and> step (Disconnect ''A'') s = Inr (s', out :: string emit list)
       \<and> connected s' = {}
       \<and> rooms s' ''room1'' = Some [''A'' \<mapsto> \<lparr>username = ''alice'', isVideoEnabled = False\<rparr>]"
  by (simp add: eval_defs)

text \<open>
  C5. The claim that a connection id occurs in at most one member map, also after a
  second \<open>register\<close> naming another room, evaluated on the code: connection A registers
  in room1 and then in room2. The handler overwrites \<open>currentRoom\<close> and inserts A into
  room2 without removing it from room1, so A is in both member maps; and after A
  disconnects, the entry in room1 is still there, since only \<open>currentRoom\<close> is cleaned up.
\<close>

theorem C5_reregister_stale_entry:
  "(\<exists>s. run [Connect ''A'', Register ''A'' ''alice'' (Some ''room1''),
              Register ''A'' ''alice'' (Some ''room2'') :: string event] init_server = Inr s
       \<and> ''A'' \<in> connected s
       \<and> currentRoom s ''A'' = Some ''room2''
       \<and> rooms s ''room1'' = Some [''A'' \<mapsto> \<lparr>username = ''alice'', isVideoEnabled = False\<rparr>]
       \<and> rooms s ''room2'' = Some [''A'' \<mapsto> \<lparr>username = ''alice'', isVideoEnabled = False\<rparr>])
   \<and> (\<exists>s. run [Connect ''A'', Register ''A'' ''alice'' (Some ''room1''),
              Register ''A'' ''alice'' (Some ''room2''), Disconnect ''A'' :: string event]
            init_server = Inr s
       \<and> ''A'' \<notin> connected s
       \<and> rooms s ''room1'' = Some [''A'' \<mapsto> \<lparr>username = ''alice'', isVideoEnabled = False\<rparr>]
       \<and> rooms s ''room2'' = None)"
  by (simp add: eval_defs)

text \<open>
  C6. The claim that the \<open>disconnect\<close> of a connection that is not the last member of
  its room notifies the remaining members, evaluated on the code: A registers with room id
  \<open>"__proto__"\<close>; B and C register with room id \<open>"A"\<close>, which \<open>rooms\<close> inherits from
  \<open>Object.prototype\<close> as A's peer object, so their entries are stored in that object; A
  disconnects, which deletes the peer object. Now \<open>rooms["A"]\<close> is \<open>undefined\<close>, and when B
  disconnects the guard fails and nothing is emitted, though C is still open, has the
  same current room and is in its broadcast group.
\<close>

theorem C6_disconnect_without_notification:
  "\<exists>s s'. run [Connect ''A'', Connect ''B'', Connect ''C'',
              Register ''A'' ''alice'' (Some ''__proto__''), Register ''B'' ''bob'' (Some ''A''),
              Register ''C'' ''carol'' (Some ''A''), Disconnect ''A'' :: string event]
            init_server = Inr s
       \<and> connected s = {''B'', ''C''}
       \<and> currentRoom s ''B'' = Some ''A'' \<and> currentRoom s ''C'' = Some ''A''
       \<and> members s ''A'' = {''B'', ''C''}
       \<and> step (Disconnect ''B'') s = Inr (s', [] :: string emit list)
       \<and> connected s' = {''C''}"
  by (auto simp add: eval_defs)

text \<open>
  C7. The claim that a video toggle is visible in the \<open>introduction\<close> snapshots issued
  afterwards, evaluated on the code: A registers with room id \<open>"constructor"\<close> and turns
  its video on. The guard holds and the flag of A's entry is set. C then registers in the
  same room: its \<open>introduction\<close> carries the function \<open>Object\<close>, not a snapshot in which A's
  flag could be seen.
\<close>

theorem C7_toggle_not_in_introduction:
  "\<exists>s s' s''. run [Connect ''A'', Connect ''C'',
              Register ''A'' ''alice'' (Some ''constructor'') :: string event] init_server = Inr s
       \<and> currentRoom s ''A'' = Some ''constructor''
       \<and> builtin_entries s ''constructor'' =
            [''A'' \<mapsto> \<lparr>username = ''alice'', isVideoEnabled = False\<rparr>]
       \<and> step (Toggle_video ''A'' True) s =
            Inr (s', [Socket_to ''constructor'' (UserToggledVideo ''A'' True) :: string emit])
       \<and> builtin_entries s' ''constructor'' =
            [''A'' \<mapsto> \<lparr>username = ''alice'', isVideoEnabled = True\<rparr>]
       \<and> step (Register ''C'' ''carol'' (Some ''constructor'')) s' =
            Inr (s'', [Socket_emit (Introduction (Builtin_function ''constructor'')),
                       Socket_to ''constructor'' (NewUserConnected ''C'' ''carol'') :: string emit])"
  by (simp add: eval_defs)

text \<open>
  C8. For an open connection whose \<open>currentRoom\<close> is still \<open>null\<close>: \<open>signal\<close> and
  \<open>user-toggle-video\<close> return normally, leave the whole state unchanged and emit nothing;
  \<open>disconnect\<close> returns normally, emits nothing and leaves the registry unchanged (only the
  transport records that the connection is closed). None of the three raises an error.
\<close>

theorem C8_unregistered_noop:
  assumes "sid \<in> connected s" and "currentRoom s sid = None"
  shows "step (Signal sid to from (data :: 'd)) s = Inr (s, [])
       \<and> step (Toggle_video sid isEnabled) s = (Inr (s, []) :: js_error + server \<times> 'd emit list)
       \<and> step (Disconnect sid) s =
           (Inr (transport_close sid s, []) :: js_error + server \<times> 'd emit list)
       \<and> rooms (transport_close sid s) = rooms s"
  using assms
  by (simp add: on_signal_def on_user_toggle_video_def on_disconnect_def truthy_def
      transport_close_def)

theorem C8_unregistered_noop_witness:
  "step (Signal ''A'' ''B'' ''A'' ''sdp'') (on_connection ''A'' init_server) =
      Inr (on_connection ''A'' init_server, [])
   \<and> step (Toggle_video ''A'' True) (on_connection ''A'' init_server) =
      (Inr (on_connection ''A'' init_server, []) :: js_error + server \<times> string emit list)
   \<and> step (Disconnect ''A'') (on_connection ''A'' init_server) =
      (Inr (transport_close ''A'' (on_connection ''A'' init_server), []) :: js_error + server \<times> string emit list)
   \<and> rooms (transport_close ''A'' (on_connection ''A'' init_server)) = Map.empty"
proof -
  have c: "''A'' \<in> connected (on_connection ''A'' init_server)"
    and n: "currentRoom (on_connection ''A'' init_server) ''A'' = None"
    and e: "rooms (on_connection ''A'' init_server) = Map.empty"
    by (simp_all add: on_connection_def init_server_def)
  from C8_unregistered_noop[OF c n, of "''B''" "''A''" "''sdp''" True] show ?thesis
    unfolding e .
qed



text \<open>
  C10. The claim that the registry holds the current room of every open connection, with
  an entry for it, so that the guards of toggle-video and disconnect never fail,
  evaluated on the code. First: A registers with room id \<open>"constructor"\<close>; its current
  room is recorded, and \<open>rooms\<close> has no such property. Second: A registers with room id
  \<open>"__proto__"\<close>, B registers with room id \<open>"A"\<close>, and A disconnects; B is open with
  current room \<open>"A"\<close>, \<open>rooms["A"]\<close> is \<open>undefined\<close>, and both the toggle-video and the
  disconnect of B fail their guard: no state change, nothing emitted.
\<close>

theorem C10_current_room_not_in_registry:
  "(\<exists>s. run [Connect ''A'', Register ''A'' ''alice'' (Some ''constructor'') :: string event]
            init_server = Inr s
       \<and> ''A'' \<in> connected s \<and> currentRoom s ''A'' = Some ''constructor''
       \<and> rooms s ''constructor'' = None)
   \<and> (\<exists>s. run [Connect ''A'', Connect ''B'', Register ''A'' ''alice'' (Some ''__proto__''),
              Register ''B'' ''bob'' (Some ''A''), Disconnect ''A'' :: string event]
            init_server = Inr s
       \<and> ''B'' \<in> connected s \<and> currentRoom s ''B'' = Some ''A''
       \<and> get_room s ''A'' = Undefined
       \<and> step (Toggle_video ''B'' True) s = (Inr (s, []) :: js_error + server \<times> string emit list)
       \<and> step (Disconnect ''B'') s =
            (Inr (transport_close ''B'' s, []) :: js_error + server \<times> string emit list))"
  by (simp add: eval_defs)

end
